theory Spec2Isabelle
  imports Complex_Main
begin

section \<open>TileForge: focus navigation and entity lifecycle (src/main.js)\<close>

text \<open>
  The development embeds the classes \<^verbatim>\<open>GameObject\<close>, \<^verbatim>\<open>TileEntity\<close>,
  \<^verbatim>\<open>InputSystem\<close> and \<^verbatim>\<open>TileForgeApp\<close> of \<^verbatim>\<open>src/main.js\<close>. The style sheet, the
  \<^verbatim>\<open>Forge\<close> element wrapper, the modal dialogs and the markup a tile builds are
  presentation and are left out; what the navigation reads or changes in the page (the
  children of the grid, the \<^verbatim>\<open>tf-focused\<close> class, the actions requested on tile elements)
  is kept as explicit state.
\<close>

subsection \<open>Layout measurements\<close>

text \<open>
  \<^verbatim>\<open>calcMetrics\<close> reads two \<^verbatim>\<open>offsetWidth\<close> values. For an element these are integers
  (CSSOM declares the attribute as a \<^verbatim>\<open>long\<close>), but the function also guards against
  values that are not numbers (\<^verbatim>\<open>!itemW\<close>, \<^verbatim>\<open>!isFinite(this.cols)\<close>). A measurement is
  therefore an integer, an infinity, \<^verbatim>\<open>NaN\<close> or \<^verbatim>\<open>undefined\<close>.
\<close>

datatype jsval = Num int | PosInf | NegInf | NaN | Undefined

text \<open>\<^verbatim>\<open>!v\<close>: the values that JavaScript treats as false.\<close>

fun js_not :: "jsval \<Rightarrow> bool" where
  "js_not (Num k) = (k = 0)"
| "js_not NaN = True"
| "js_not Undefined = True"
| "js_not PosInf = False"
| "js_not NegInf = False"

text \<open>\<^verbatim>\<open>v <= 0\<close>: a comparison with \<^verbatim>\<open>NaN\<close> (and with \<^verbatim>\<open>undefined\<close>, which converts to it)
  is false.\<close>

fun js_le_zero :: "jsval \<Rightarrow> bool" where
  "js_le_zero (Num k) = (k \<le> 0)"
| "js_le_zero NegInf = True"
| "js_le_zero PosInf = False"
| "js_le_zero NaN = False"
| "js_le_zero Undefined = False"

text \<open>The inter-item gap added to the item width (\<^verbatim>\<open>itemW + 16\<close>, ``16 = gap'').\<close>

definition gap :: int where
  "gap = 16"

fun js_add_gap :: "jsval \<Rightarrow> jsval" where
  "js_add_gap (Num k) = Num (k + gap)"
| "js_add_gap PosInf = PosInf"
| "js_add_gap NegInf = NegInf"
| "js_add_gap NaN = NaN"
| "js_add_gap Undefined = NaN"

text \<open>
  \<^verbatim>\<open>Math.floor(x / y)\<close>. On integers with a nonzero divisor the floor of the quotient is
  the integer quotient \<open>div\<close>, which rounds towards minus infinity. A finite number divided
  by an infinity is zero; an integer divided by zero is an infinity of its sign, or \<^verbatim>\<open>NaN\<close>
  for \<open>0 / 0\<close>; the quotient of two infinities is \<^verbatim>\<open>NaN\<close>, and so is every quotient with
  \<^verbatim>\<open>NaN\<close> or \<^verbatim>\<open>undefined\<close>. (The divisor of \<^verbatim>\<open>calcMetrics\<close> is never zero: it is a positive
  width plus the gap.)
\<close>

fun js_floor_div :: "jsval \<Rightarrow> jsval \<Rightarrow> jsval" where
  "js_floor_div (Num a) (Num b) =
     (if b \<noteq> 0 then Num (a div b)
      else if 0 < a then PosInf else if a < 0 then NegInf else NaN)"
| "js_floor_div (Num a) PosInf = Num 0"
| "js_floor_div (Num a) NegInf = Num 0"
| "js_floor_div PosInf (Num b) = (if 0 \<le> b then PosInf else NegInf)"
| "js_floor_div NegInf (Num b) = (if 0 \<le> b then NegInf else PosInf)"
| "js_floor_div _ _ = NaN"

text \<open>The two values one call of \<^verbatim>\<open>calcMetrics\<close> measures: \<^verbatim>\<open>this.container.offsetWidth\<close>
  and \<^verbatim>\<open>this.items[0].element.offsetWidth\<close>.\<close>

record layout =
  gridW :: jsval
  itemW :: jsval

subsection \<open>Entities\<close>

text \<open>
  The properties object handed to \<^verbatim>\<open>addEntity\<close>; a field that is absent is \<open>None\<close>.
  \<^verbatim>\<open>a || b\<close> on a string property yields \<open>b\<close> when the property is absent or empty.
\<close>

record Props =
  id_prop :: "string option"
  title_prop :: "string option"
  image_prop :: "string option"
  subtitle_prop :: "string option"

fun or_else :: "string option \<Rightarrow> string \<Rightarrow> string" where
  "or_else None d = d"
| "or_else (Some s) d = (if s = [] then d else s)"

text \<open>
  A tile: the fields of \<^verbatim>\<open>GameObject\<close> and \<^verbatim>\<open>TileEntity\<close>. \<open>element\<close> is the handle of the
  \<^verbatim>\<open>div\<close> the constructor creates; the click callback and the dirty flag play no part
  in navigation and are not modelled.
\<close>

record TileEntity =
  ent_id :: string
  props :: Props
  element :: nat
  title :: string
  image_url :: string

subsection \<open>Application state\<close>

text \<open>Actions the code requests on a tile's element: \<^verbatim>\<open>element.remove()\<close> (issued by
  \<^verbatim>\<open>destroy\<close>), \<^verbatim>\<open>element.scrollIntoView(...)\<close> and \<^verbatim>\<open>element.click()\<close>.\<close>

datatype dom_call = Remove nat | ScrollIntoView nat | Click nat

text \<open>
  One record holds the fields of the application (\<open>entities\<close>), of its input system
  (\<open>items\<close>, \<open>focusedIndex\<close>, \<open>cols\<close>, \<open>active\<close>) and the part of the page they act on:
  the elements that are children of the grid, the elements that carry the class
  \<^verbatim>\<open>tf-focused\<close>, the next fresh element handle and the log of requested actions.
  \<open>focusedIndex\<close> is \<open>-1\<close> when nothing is focused, as in the source.

  \<^verbatim>\<open>addEntity\<close> passes \<^verbatim>\<open>this.entities\<close> itself to \<^verbatim>\<open>registerItems\<close>, so after it both fields
  name one array. The only in-place update of that array is the \<^verbatim>\<open>push\<close> of \<^verbatim>\<open>addEntity\<close>,
  which is followed at once by \<^verbatim>\<open>registerItems(this.entities)\<close>; \<^verbatim>\<open>clear\<close> assigns fresh
  arrays. Between operations the two fields therefore hold what the model gives them.
\<close>

record TileForgeApp =
  entities :: "TileEntity list"
  items :: "TileEntity list"
  focusedIndex :: int
  cols :: int
  active :: bool
  grid_children :: "nat list"
  tf_focused :: "nat set"
  next_element :: nat
  calls :: "dom_call list"

text \<open>The state the constructors of \<^verbatim>\<open>TileForgeApp\<close> and \<^verbatim>\<open>InputSystem\<close> set up.\<close>

definition TileForgeApp_new :: TileForgeApp where
  "TileForgeApp_new =
     \<lparr>entities = [], items = [], focusedIndex = -1, cols = 1, active = True,
      grid_children = [], tf_focused = {}, next_element = 0, calls = []\<rparr>"

text \<open>\<^verbatim>\<open>xs[i]\<close>: \<^verbatim>\<open>undefined\<close> outside the array, also for \<open>i = -1\<close>.\<close>

definition item_at :: "'a list \<Rightarrow> int \<Rightarrow> 'a option" where
  "item_at xs i = (if 0 \<le> i \<and> i < int (length xs) then Some (xs ! nat i) else None)"

subsection \<open>InputSystem: calcMetrics\<close>

text \<open>
  \<^verbatim>\<open>calcMetrics\<close> (lines 226-236). The result of \<^verbatim>\<open>Math.floor\<close> is stored in \<^verbatim>\<open>this.cols\<close>
  and replaced by \<open>1\<close> when it is not finite or below \<open>1\<close>, so the stored value is always
  an integer.
\<close>

definition calcMetrics :: "layout \<Rightarrow> TileForgeApp \<Rightarrow> TileForgeApp" where
  "calcMetrics lay st =
     (if length (items st) = 0 then st
      else if js_not (itemW lay) \<or> js_le_zero (itemW lay) then st\<lparr>cols := 1\<rparr>
      else (case js_floor_div (gridW lay) (js_add_gap (itemW lay)) of
              Num c \<Rightarrow> if c < 1 then st\<lparr>cols := 1\<rparr> else st\<lparr>cols := c\<rparr>
            | _ \<Rightarrow> st\<lparr>cols := 1\<rparr>))"

subsection \<open>Calls that may throw\<close>

text \<open>
  The exceptions the code can raise are those of the language: a \<^verbatim>\<open>TypeError\<close> when a
  property of \<^verbatim>\<open>undefined\<close> is read, a \<^verbatim>\<open>ReferenceError\<close> when a \<^verbatim>\<open>const\<close> is read before
  its declaration. The source declares no error class of its own. A call either returns
  a value or throws; in both cases it leaves a state behind, since what it assigned before
  the exception stays assigned. A call is therefore a pair of an outcome and the state
  after it.
\<close>

datatype error = TypeError | ReferenceError

datatype 'a outcome = Returned 'a | Thrown error

fun outcome_of :: "error option \<Rightarrow> unit outcome" where
  "outcome_of None = Returned ()"
| "outcome_of (Some e) = Thrown e"

subsection \<open>The visual update of focus\<close>

text \<open>
  \<^verbatim>\<open>focus\<close> (lines 238-261) begins with two bounds checks and the assignment of
  \<^verbatim>\<open>this.focusedIndex\<close> (lines 239-243). What follows (lines 244-260) is not well-formed:
  two copies of the visual update are interleaved, the first cut off after line 246, and
  the text ends in a dangling \<^verbatim>\<open>inline: "nearest", });\<close>. These lines read
  \<^verbatim>\<open>this.items[index]\<close>, add the class \<^verbatim>\<open>tf-focused\<close>, test \<^verbatim>\<open>document.body.contains\<close> and
  call \<^verbatim>\<open>scrollIntoView\<close>; they assign no field of the input system. Their effect is
  therefore a parameter of the model: a function of the target \<^verbatim>\<open>this.items[index]\<close>
  (\<open>None\<close> when that is \<^verbatim>\<open>undefined\<close>) and of the state after line 243, which yields the
  exception thrown, if any, the elements that carry the class afterwards, and the actions
  requested on elements. Everything proved for every such function holds however the
  lines are resolved.
\<close>

type_synonym visual = "TileEntity option \<Rightarrow> TileForgeApp \<Rightarrow> error option \<times> nat set \<times> dom_call list"

text \<open>
  Two readings of the lines. The later copy (lines 248-258), taken alone, has no guard:
  \<^verbatim>\<open>$(target.element)\<close> throws a \<^verbatim>\<open>TypeError\<close> when the target is \<^verbatim>\<open>undefined\<close>; otherwise
  the class is added and the element scrolled into view when the document body contains
  it, which is when it is a child of the grid.
\<close>

definition visual_later_copy :: visual where
  "visual_later_copy target st =
     (case target of
        None \<Rightarrow> (Some TypeError, tf_focused st, [])
      | Some t \<Rightarrow>
          (None, insert (element t) (tf_focused st),
           if element t \<in> set (grid_children st) then [ScrollIntoView (element t)] else []))"

text \<open>
  The lines as nested by their braces: the block of the guard
  \<^verbatim>\<open>if (target && target.element)\<close> (line 245) contains the second \<^verbatim>\<open>const target\<close>
  (line 248), so the \<^verbatim>\<open>target\<close> read at line 246 is that constant before its declaration
  and the block throws a \<^verbatim>\<open>ReferenceError\<close> as soon as it is entered. With an \<^verbatim>\<open>undefined\<close>
  target the guard fails and nothing happens.
\<close>

definition visual_nested :: visual where
  "visual_nested target st =
     (case target of
        None \<Rightarrow> (None, tf_focused st, [])
      | Some t \<Rightarrow> (Some ReferenceError, tf_focused st, []))"

subsection \<open>InputSystem: focus, registerItems, handleKey\<close>

text \<open>One run of the visual update \<open>V\<close> for a target: the class list and the requested
  actions change as \<open>V\<close> says, and the call throws what \<open>V\<close> throws.\<close>

definition visual_update ::
  "visual \<Rightarrow> TileEntity option \<Rightarrow> TileForgeApp \<Rightarrow> unit outcome \<times> TileForgeApp" where
  "visual_update V target st =
     (case V target st of
        (err, classes, requests) \<Rightarrow>
          (outcome_of err, st\<lparr>tf_focused := classes, calls := calls st @ requests\<rparr>))"

text \<open>
  \<^verbatim>\<open>focus\<close>: lines 239-243 as they stand, then the visual update for
  \<^verbatim>\<open>this.items[index]\<close>. An exception of the update leaves the index assigned.
\<close>

definition focus :: "visual \<Rightarrow> int \<Rightarrow> TileForgeApp \<Rightarrow> unit outcome \<times> TileForgeApp" where
  "focus V index st =
     (let index1 = (if index < 0 then 0 else index);
          index2 = (if index1 \<ge> int (length (items st)) then int (length (items st)) - 1
                    else index1);
          st1 = st\<lparr>focusedIndex := index2\<rparr>
      in visual_update V (item_at (items st1) index2) st1)"

text \<open>\<^verbatim>\<open>registerItems\<close> (lines 215-224). Nothing follows the call of \<^verbatim>\<open>focus\<close>, so its outcome
  is the outcome of the registration.\<close>

definition registerItems ::
  "visual \<Rightarrow> layout \<Rightarrow> TileEntity list \<Rightarrow> TileForgeApp \<Rightarrow> unit outcome \<times> TileForgeApp" where
  "registerItems V lay its st =
     (let st1 = calcMetrics lay (st\<lparr>items := its\<rparr>)
      in if length (items st1) > 0 then focus V 0 (st1\<lparr>focusedIndex := 0\<rparr>)
         else (Returned (), st1\<lparr>focusedIndex := -1\<rparr>))"

text \<open>
  \<^verbatim>\<open>handleKey\<close> (lines 263-288), on the \<^verbatim>\<open>key\<close> of the event. \<^verbatim>\<open>element.click()\<close> is
  logged; what the tile's click callback does is the host's business.
\<close>

definition handleKey ::
  "visual \<Rightarrow> layout \<Rightarrow> string \<Rightarrow> TileForgeApp \<Rightarrow> unit outcome \<times> TileForgeApp" where
  "handleKey V lay key st =
     (if \<not> active st then (Returned (), st)
      else let st1 = calcMetrics lay st in
        if key = ''ArrowRight'' then focus V (focusedIndex st1 + 1) st1
        else if key = ''ArrowLeft'' then focus V (focusedIndex st1 - 1) st1
        else if key = ''ArrowDown'' then focus V (focusedIndex st1 + cols st1) st1
        else if key = ''ArrowUp'' then focus V (focusedIndex st1 - cols st1) st1
        else if key = ''Enter'' \<or> key = '' '' then
          (case item_at (items st1) (focusedIndex st1) of
             Some t \<Rightarrow> (Returned (), st1\<lparr>calls := calls st1 @ [Click (element t)]\<rparr>)
           | None \<Rightarrow> (Returned (), st1))
        else (Returned (), st1))"

subsection \<open>GameObject and TileEntity\<close>

text \<open>
  The constructors (lines 106-111 and 126-134). \<open>rnd\<close> stands for the string
  \<^verbatim>\<open>Math.random().toString(36).substr(2, 9)\<close>, used when no id is supplied.
  \<^verbatim>\<open>document.createElement\<close> yields a fresh element, not yet attached.
\<close>

definition TileEntity_new :: "string \<Rightarrow> Props \<Rightarrow> TileForgeApp \<Rightarrow> TileEntity \<times> TileForgeApp" where
  "TileEntity_new rnd p st =
     (\<lparr>ent_id = or_else (id_prop p) rnd, props = p, element = next_element st,
       title = or_else (title_prop p) ''Unknown'', image_url = or_else (image_prop p) []\<rparr>,
      st\<lparr>next_element := Suc (next_element st)\<rparr>)"

text \<open>\<^verbatim>\<open>destroy\<close> (lines 119-121): removes the element from its parent.\<close>

definition destroy :: "TileEntity \<Rightarrow> TileForgeApp \<Rightarrow> TileForgeApp" where
  "destroy ent st =
     st\<lparr>grid_children := removeAll (element ent) (grid_children st),
        calls := calls st @ [Remove (element ent)]\<rparr>"

subsection \<open>TileForgeApp\<close>

text \<open>
  \<^verbatim>\<open>addEntity\<close> (lines 340-346). Called without a properties object, the constructor of
  \<^verbatim>\<open>TileEntity\<close> reads \<^verbatim>\<open>props.title\<close> of \<^verbatim>\<open>undefined\<close> and throws before the application
  has changed. Otherwise the entity is pushed, its element appended to the grid and the
  whole array registered; the entity is returned (line 345) when the registration
  returns, and an exception of the registration is the exception of \<^verbatim>\<open>addEntity\<close>.
\<close>

definition addEntity ::
  "visual \<Rightarrow> string \<Rightarrow> layout \<Rightarrow> Props option \<Rightarrow> TileForgeApp
     \<Rightarrow> TileEntity outcome \<times> TileForgeApp" where
  "addEntity V rnd lay popt st =
     (case popt of
        None \<Rightarrow> (Thrown TypeError, st)
      | Some p \<Rightarrow>
          (let (ent, st1) = TileEntity_new rnd p st;
               st2 = st1\<lparr>entities := entities st1 @ [ent]\<rparr>;
               st3 = st2\<lparr>grid_children := grid_children st2 @ [element ent]\<rparr>
           in case registerItems V lay (entities st3) st3 of
                (r, st4) \<Rightarrow> (case r of Returned u \<Rightarrow> Returned ent | Thrown e \<Rightarrow> Thrown e, st4)))"

text \<open>
  The class body declares \<^verbatim>\<open>clear\<close> twice. In a JavaScript class a later method replaces
  an earlier one of the same name, so the method an application runs is the second
  (lines 355-359). The first (lines 347-353), which calls \<^verbatim>\<open>destroy\<close> on every entity
  before it empties the grid, is kept here as \<open>clear_shadowed\<close>.
  \<^verbatim>\<open>this.grid.innerHTML = ""\<close> removes every child of the grid.
\<close>

definition clear_shadowed :: "visual \<Rightarrow> layout \<Rightarrow> TileForgeApp \<Rightarrow> unit outcome \<times> TileForgeApp" where
  "clear_shadowed V lay st =
     (let st1 = fold destroy (entities st) st;
          st2 = st1\<lparr>grid_children := []\<rparr>;
          st3 = st2\<lparr>entities := []\<rparr>
      in registerItems V lay [] st3)"

definition clear :: "visual \<Rightarrow> layout \<Rightarrow> TileForgeApp \<Rightarrow> unit outcome \<times> TileForgeApp" where
  "clear V lay st =
     (let st1 = st\<lparr>grid_children := []\<rparr>;
          st2 = st1\<lparr>entities := []\<rparr>
      in registerItems V lay [] st2)"

subsection \<open>Operations of the system\<close>

text \<open>
  What a host or a user can make the system do: add an entity, clear, register a list of
  items with the input system, press a key, resize the window (which runs
  \<^verbatim>\<open>calcMetrics\<close>). Each carries the layout measured while it runs. \<open>step\<close> gives the state
  an operation leaves behind, whether it returned or threw; the next operation starts
  from that state.
\<close>

datatype op =
    AddEntity string layout "Props option"
  | Clear layout
  | RegisterItems layout "TileEntity list"
  | KeyDown layout string
  | Resize layout

fun step :: "visual \<Rightarrow> op \<Rightarrow> TileForgeApp \<Rightarrow> TileForgeApp" where
  "step V (AddEntity rnd lay popt) st = snd (addEntity V rnd lay popt st)"
| "step V (Clear lay) st = snd (clear V lay st)"
| "step V (RegisterItems lay its) st = snd (registerItems V lay its st)"
| "step V (KeyDown lay key) st = snd (handleKey V lay key st)"
| "step V (Resize lay) st = calcMetrics lay st"

definition run :: "visual \<Rightarrow> op list \<Rightarrow> TileForgeApp \<Rightarrow> TileForgeApp" where
  "run V ops st = fold (step V) ops st"

text \<open>The navigator's invariant: nothing is focused exactly when there are no items, and
  otherwise the focused index is an index of \<open>items\<close>.\<close>

definition nav_ok :: "TileForgeApp \<Rightarrow> bool" where
  "nav_ok st =
     (if items st = [] then focusedIndex st = -1
      else 0 \<le> focusedIndex st \<and> focusedIndex st < int (length (items st)))"

subsection \<open>Example states\<close>

text \<open>
  A grid 500 pixels wide with tiles 200 pixels wide holds two columns. \<open>one_tile\<close> and
  \<open>three_tiles\<close> are the application after one and after three calls of \<^verbatim>\<open>addEntity\<close>, and
  \<open>three_tiles_last\<close> is \<open>three_tiles\<close> after one press of the down arrow, which moves the
  focus to the last tile; these three are taken under the reading \<open>visual_later_copy\<close>.
  \<open>add_tile x\<close> is the operation that adds a tile with the id \<open>x\<close>.
\<close>

definition example_layout :: layout where
  "example_layout = \<lparr>gridW = Num 500, itemW = Num 200\<rparr>"

definition tile_props :: "string \<Rightarrow> Props" where
  "tile_props x = \<lparr>id_prop = Some x, title_prop = None, image_prop = None, subtitle_prop = None\<rparr>"

definition add_tile :: "string \<Rightarrow> op" where
  "add_tile x = AddEntity ''r'' example_layout (Some (tile_props x))"

definition one_tile :: TileForgeApp where
  "one_tile = run visual_later_copy [add_tile ''a''] TileForgeApp_new"

definition three_tiles :: TileForgeApp where
  "three_tiles = run visual_later_copy [add_tile ''a'', add_tile ''b'', add_tile ''c'']
     TileForgeApp_new"

definition three_tiles_last :: TileForgeApp where
  "three_tiles_last = snd (handleKey visual_later_copy example_layout ''ArrowDown'' three_tiles)"

section \<open>Properties\<close>

subsection \<open>Frame lemmas\<close>

lemma calcMetrics_empty: "items st = [] \<Longrightarrow> calcMetrics lay st = st"
  by (simp add: calcMetrics_def)

lemma items_calcMetrics [simp]: "items (calcMetrics lay st) = items st"
  by (simp add: calcMetrics_def split: jsval.splits)

lemma focusedIndex_calcMetrics [simp]: "focusedIndex (calcMetrics lay st) = focusedIndex st"
  by (simp add: calcMetrics_def split: jsval.splits)

lemma entities_calcMetrics [simp]: "entities (calcMetrics lay st) = entities st"
  by (simp add: calcMetrics_def split: jsval.splits)

lemma calls_calcMetrics [simp]: "calls (calcMetrics lay st) = calls st"
  by (simp add: calcMetrics_def split: jsval.splits)

lemma tf_focused_calcMetrics [simp]: "tf_focused (calcMetrics lay st) = tf_focused st"
  by (simp add: calcMetrics_def split: jsval.splits)

lemma grid_children_calcMetrics [simp]: "grid_children (calcMetrics lay st) = grid_children st"
  by (simp add: calcMetrics_def split: jsval.splits)

lemma active_calcMetrics [simp]: "active (calcMetrics lay st) = active st"
  by (simp add: calcMetrics_def split: jsval.splits)

lemma calcMetrics_focusedIndex_update:
  "calcMetrics lay (st\<lparr>focusedIndex := j\<rparr>) = (calcMetrics lay st)\<lparr>focusedIndex := j\<rparr>"
  by (simp add: calcMetrics_def split: jsval.splits)

lemma visual_update_frame [simp]:
  "items (snd (visual_update V t st)) = items st"
  "entities (snd (visual_update V t st)) = entities st"
  "focusedIndex (snd (visual_update V t st)) = focusedIndex st"
  "active (snd (visual_update V t st)) = active st"
  "cols (snd (visual_update V t st)) = cols st"
  "grid_children (snd (visual_update V t st)) = grid_children st"
  by (simp_all add: visual_update_def split: prod.splits)

lemma focus_index:
  "items st \<noteq> [] \<Longrightarrow>
   focusedIndex (snd (focus V idx st)) = max 0 (min idx (int (length (items st)) - 1))"
  by (auto simp: focus_def Let_def)

lemma focus_index_empty: "items st = [] \<Longrightarrow> focusedIndex (snd (focus V idx st)) = -1"
  by (simp add: focus_def Let_def)

lemma focus_frame [simp]:
  "items (snd (focus V idx st)) = items st"
  "entities (snd (focus V idx st)) = entities st"
  "active (snd (focus V idx st)) = active st"
  "cols (snd (focus V idx st)) = cols st"
  "grid_children (snd (focus V idx st)) = grid_children st"
  by (simp_all add: focus_def Let_def)

lemma focus_as_update:
  "focus V idx st =
     visual_update V (item_at (items st) (focusedIndex (snd (focus V idx st))))
       (st\<lparr>focusedIndex := focusedIndex (snd (focus V idx st))\<rparr>)"
  by (simp add: focus_def Let_def)

lemma nav_ok_focus: "nav_ok (snd (focus V idx st))"
  by (cases "items st = []") (auto simp: nav_ok_def focus_index focus_index_empty)

lemma nav_ok_calcMetrics [simp]: "nav_ok (calcMetrics lay st) = nav_ok st"
  by (simp add: nav_ok_def)

lemma focusedIndex_registerItems:
  "focusedIndex (snd (registerItems V lay its st)) = (if its = [] then -1 else 0)"
  by (simp add: registerItems_def Let_def focus_index)

lemma items_registerItems [simp]: "items (snd (registerItems V lay its st)) = its"
  by (simp add: registerItems_def Let_def)

lemma entities_registerItems [simp]:
  "entities (snd (registerItems V lay its st)) = entities st"
  by (simp add: registerItems_def Let_def)

lemma grid_children_registerItems [simp]:
  "grid_children (snd (registerItems V lay its st)) = grid_children st"
  by (simp add: registerItems_def Let_def)

lemma registerItems_empty:
  "registerItems V lay [] st = (Returned (), st\<lparr>items := [], focusedIndex := -1\<rparr>)"
  by (simp add: registerItems_def Let_def calcMetrics_empty)

lemma nav_ok_registerItems: "nav_ok (snd (registerItems V lay its st))"
  by (simp add: nav_ok_def focusedIndex_registerItems)

lemma handleKey_arrows:
  assumes "active st"
  shows "handleKey V lay ''ArrowRight'' st = focus V (focusedIndex st + 1) (calcMetrics lay st)"
    and "handleKey V lay ''ArrowLeft'' st = focus V (focusedIndex st - 1) (calcMetrics lay st)"
    and "handleKey V lay ''ArrowDown'' st
           = focus V (focusedIndex st + cols (calcMetrics lay st)) (calcMetrics lay st)"
    and "handleKey V lay ''ArrowUp'' st
           = focus V (focusedIndex st - cols (calcMetrics lay st)) (calcMetrics lay st)"
  using assms by (simp_all add: handleKey_def Let_def)

lemma handleKey_frame [simp]:
  "items (snd (handleKey V lay key st)) = items st"
  "entities (snd (handleKey V lay key st)) = entities st"
  "active (snd (handleKey V lay key st)) = active st"
  by (simp_all add: handleKey_def Let_def split: option.splits)

lemma nav_ok_handleKey: "nav_ok st \<Longrightarrow> nav_ok (snd (handleKey V lay key st))"
  by (auto simp: handleKey_def Let_def nav_ok_focus split: option.splits) (simp_all add: nav_ok_def)

lemma TileEntity_new_frame [simp]:
  "entities (snd (TileEntity_new rnd p st)) = entities st"
  "grid_children (snd (TileEntity_new rnd p st)) = grid_children st"
  "items (snd (TileEntity_new rnd p st)) = items st"
  by (simp_all add: TileEntity_new_def)

lemma addEntity_Some:
  "addEntity V rnd lay (Some p) st =
     (case fst (registerItems V lay (entities st @ [fst (TileEntity_new rnd p st)])
             ((snd (TileEntity_new rnd p st))
                \<lparr>entities := entities st @ [fst (TileEntity_new rnd p st)],
                 grid_children := grid_children st @ [element (fst (TileEntity_new rnd p st))]\<rparr>)) of
        Returned u \<Rightarrow> Returned (fst (TileEntity_new rnd p st))
      | Thrown e \<Rightarrow> Thrown e,
      snd (registerItems V lay (entities st @ [fst (TileEntity_new rnd p st)])
             ((snd (TileEntity_new rnd p st))
                \<lparr>entities := entities st @ [fst (TileEntity_new rnd p st)],
                 grid_children := grid_children st @ [element (fst (TileEntity_new rnd p st))]\<rparr>)))"
  by (simp add: addEntity_def Let_def case_prod_beta)

lemma snd_addEntity_Some:
  "snd (addEntity V rnd lay (Some p) st) =
     snd (registerItems V lay (entities st @ [fst (TileEntity_new rnd p st)])
             ((snd (TileEntity_new rnd p st))
                \<lparr>entities := entities st @ [fst (TileEntity_new rnd p st)],
                 grid_children := grid_children st @ [element (fst (TileEntity_new rnd p st))]\<rparr>))"
  by (simp add: addEntity_Some)

lemma entities_addEntity:
  "entities (snd (addEntity V rnd lay (Some p) st)) = entities st @ [fst (TileEntity_new rnd p st)]"
  by (simp add: snd_addEntity_Some)

lemma items_addEntity:
  "items (snd (addEntity V rnd lay (Some p) st)) = entities st @ [fst (TileEntity_new rnd p st)]"
  by (simp add: snd_addEntity_Some)

lemma ent_id_new: "ent_id (fst (TileEntity_new rnd p st)) = or_else (id_prop p) rnd"
  by (simp add: TileEntity_new_def)

lemma nav_ok_addEntity: "nav_ok st \<Longrightarrow> nav_ok (snd (addEntity V rnd lay popt st))"
proof (cases popt)
  case None
  assume "nav_ok st"
  then show ?thesis using None by (simp add: addEntity_def)
next
  case (Some p)
  then show ?thesis by (simp add: snd_addEntity_Some nav_ok_registerItems)
qed

lemma clear_eq:
  "clear V lay st = (Returned (), st\<lparr>grid_children := [], entities := [], items := [],
      focusedIndex := -1\<rparr>)"
  by (simp add: clear_def Let_def registerItems_empty)

lemma nav_ok_clear: "nav_ok (snd (clear V lay st))"
  by (simp add: clear_def Let_def nav_ok_registerItems)

lemma nav_ok_step:
  assumes "nav_ok st" shows "nav_ok (step V opn st)"
proof (cases opn)
  case (AddEntity rnd lay popt)
  then show ?thesis using assms by (simp add: nav_ok_addEntity)
next
  case (Clear lay)
  then show ?thesis by (simp add: nav_ok_clear)
next
  case (RegisterItems lay its)
  then show ?thesis by (simp add: nav_ok_registerItems)
next
  case (KeyDown lay key)
  then show ?thesis using assms by (simp add: nav_ok_handleKey)
next
  case (Resize lay)
  then show ?thesis using assms by simp
qed

lemma nav_ok_fold: "nav_ok st \<Longrightarrow> nav_ok (fold (step V) ops st)"
  by (induction ops arbitrary: st) (simp_all add: nav_ok_step)

lemma items_entities_step:
  assumes "items st = entities st" and "\<forall>lay its. opn \<noteq> RegisterItems lay its"
  shows "items (step V opn st) = entities (step V opn st)"
proof (cases opn)
  case (AddEntity rnd lay popt)
  show ?thesis
  proof (cases popt)
    case None
    then show ?thesis using AddEntity assms(1) by (simp add: addEntity_def)
  next
    case (Some p)
    then show ?thesis using AddEntity by (simp add: entities_addEntity items_addEntity)
  qed
next
  case (Clear lay)
  then show ?thesis by (simp add: clear_eq)
next
  case (RegisterItems lay its)
  then show ?thesis using assms(2) by simp
next
  case (KeyDown lay key)
  then show ?thesis using assms(1) by simp
next
  case (Resize lay)
  then show ?thesis using assms(1) by simp
qed

lemma items_entities_fold:
  "items st = entities st \<Longrightarrow> \<forall>lay its. RegisterItems lay its \<notin> set ops \<Longrightarrow>
   items (fold (step V) ops st) = entities (fold (step V) ops st)"
proof (induction ops arbitrary: st)
  case Nil
  then show ?case by simp
next
  case (Cons opn ops)
  have "items (step V opn st) = entities (step V opn st)"
    using Cons.prems by (intro items_entities_step) auto
  moreover have "\<forall>lay its. RegisterItems lay its \<notin> set ops"
    using Cons.prems(2) by auto
  ultimately show ?case
    using Cons.IH by simp
qed

lemma fold_destroy:
  "fold destroy es st =
     st\<lparr>grid_children := filter (\<lambda>h. h \<notin> element ` set es) (grid_children st),
        calls := calls st @ map (\<lambda>e. Remove (element e)) es\<rparr>"
proof (induction es arbitrary: st)
  case Nil
  show ?case by simp
next
  case (Cons e es)
  have "fold destroy (e # es) st = fold destroy es (destroy e st)"
    by simp
  also have "\<dots> = (destroy e st)
      \<lparr>grid_children := filter (\<lambda>h. h \<notin> element ` set es) (grid_children (destroy e st)),
       calls := calls (destroy e st) @ map (\<lambda>e. Remove (element e)) es\<rparr>"
    by (rule Cons)
  also have "\<dots> = st
      \<lparr>grid_children := filter (\<lambda>h. h \<notin> element ` set (e # es)) (grid_children st),
       calls := calls st @ map (\<lambda>e. Remove (element e)) (e # es)\<rparr>"
    by (simp add: destroy_def removeAll_filter_not_eq eq_commute [of "element e"])
  finally show ?case .
qed

lemma clear_outcome:
  "fst (clear V lay st) = Returned () \<and> entities (snd (clear V lay st)) = []
   \<and> items (snd (clear V lay st)) = [] \<and> focusedIndex (snd (clear V lay st)) = -1
   \<and> grid_children (snd (clear V lay st)) = [] \<and> calls (snd (clear V lay st)) = calls st"
  by (simp add: clear_eq)

lemma clear_shadowed_outcome:
  "fst (clear_shadowed V lay st) = Returned () \<and> entities (snd (clear_shadowed V lay st)) = []
   \<and> items (snd (clear_shadowed V lay st)) = []
   \<and> focusedIndex (snd (clear_shadowed V lay st)) = -1
   \<and> grid_children (snd (clear_shadowed V lay st)) = []
   \<and> calls (snd (clear_shadowed V lay st))
       = calls st @ map (\<lambda>e. Remove (element e)) (entities st)"
  by (simp add: clear_shadowed_def Let_def registerItems_empty fold_destroy)

subsection \<open>The example states\<close>

lemma one_tile_eq:
  "one_tile = \<lparr>entities = [\<lparr>ent_id = ''a'', props = tile_props ''a'', element = 0, title = ''Unknown'', image_url = []\<rparr>],
     items = [\<lparr>ent_id = ''a'', props = tile_props ''a'', element = 0, title = ''Unknown'', image_url = []\<rparr>],
     focusedIndex = 0, cols = 2, active = True, grid_children = [0], tf_focused = {0},
     next_element = 1, calls = [ScrollIntoView 0]\<rparr>"
  by (simp add: one_tile_def add_tile_def run_def addEntity_def TileEntity_new_def registerItems_def
      calcMetrics_def focus_def visual_update_def visual_later_copy_def item_at_def
      TileForgeApp_new_def example_layout_def tile_props_def gap_def Let_def)

lemma three_tiles_eq:
  "three_tiles = \<lparr>entities = [\<lparr>ent_id = ''a'', props = tile_props ''a'', element = 0, title = ''Unknown'', image_url = []\<rparr>,
        \<lparr>ent_id = ''b'', props = tile_props ''b'', element = 1, title = ''Unknown'', image_url = []\<rparr>,
        \<lparr>ent_id = ''c'', props = tile_props ''c'', element = 2, title = ''Unknown'', image_url = []\<rparr>],
     items = [\<lparr>ent_id = ''a'', props = tile_props ''a'', element = 0, title = ''Unknown'', image_url = []\<rparr>,
        \<lparr>ent_id = ''b'', props = tile_props ''b'', element = 1, title = ''Unknown'', image_url = []\<rparr>,
        \<lparr>ent_id = ''c'', props = tile_props ''c'', element = 2, title = ''Unknown'', image_url = []\<rparr>],
     focusedIndex = 0, cols = 2, active = True, grid_children = [0, 1, 2], tf_focused = {0},
     next_element = 3, calls = [ScrollIntoView 0, ScrollIntoView 0, ScrollIntoView 0]\<rparr>"
  by (simp add: three_tiles_def add_tile_def run_def addEntity_def TileEntity_new_def registerItems_def
      calcMetrics_def focus_def visual_update_def visual_later_copy_def item_at_def
      TileForgeApp_new_def example_layout_def tile_props_def gap_def Let_def)

lemma three_tiles_last_eq:
  "three_tiles_last = three_tiles\<lparr>focusedIndex := 2, tf_focused := {0, 2},
      calls := [ScrollIntoView 0, ScrollIntoView 0, ScrollIntoView 0, ScrollIntoView 2]\<rparr>"
  by (simp add: three_tiles_last_def three_tiles_eq handleKey_def calcMetrics_def
      focus_def visual_update_def visual_later_copy_def item_at_def example_layout_def gap_def
      Let_def insert_commute)

subsection \<open>Grid metrics\<close>

text \<open>
  Claim C9. When the collection is empty, recomputing the grid metrics changes nothing:
  \<^verbatim>\<open>calcMetrics\<close> returns at once, so the column count (and every other field) keeps the
  value it had, whatever that value and whatever the measurements are. The function has
  no failing branch.
\<close>

theorem calcMetrics_empty_noop:
  "items st = [] \<Longrightarrow> calcMetrics lay st = st"
  by (simp add: calcMetrics_def)

theorem calcMetrics_empty_noop_witness:
  "calcMetrics \<lparr>gridW = Num 1000, itemW = Undefined\<rparr> (TileForgeApp_new\<lparr>cols := 7\<rparr>)
     = TileForgeApp_new\<lparr>cols := 7\<rparr>
   \<and> cols (calcMetrics example_layout (TileForgeApp_new\<lparr>cols := 7\<rparr>)) = 7"
proof -
  have e: "items (TileForgeApp_new\<lparr>cols := 7\<rparr>) = []"
    by (simp add: TileForgeApp_new_def)
  show ?thesis
    using calcMetrics_empty_noop [OF e, of "\<lparr>gridW = Num 1000, itemW = Undefined\<rparr>"]
      calcMetrics_empty_noop [OF e, of example_layout]
    by simp
qed

text \<open>
  Claim C5. On a non-empty collection (there is an item to measure), for a positive
  container width \<open>w\<close> and a positive item width \<open>iw\<close>, the recomputed column count is the
  quotient of \<open>w\<close> by \<open>iw\<close> plus the gap, rounded down (\<open>div\<close> is the floor of the real
  quotient) and raised to \<open>1\<close> when it is smaller; it is never below \<open>1\<close>. The gap is the
  constant \<open>16\<close> of the source, which is not negative.
\<close>

theorem calcMetrics_columns:
  assumes "items st \<noteq> []" and "0 < w" and "0 < iw"
  shows "cols (calcMetrics \<lparr>gridW = Num w, itemW = Num iw\<rparr> st) = max 1 (w div (iw + gap))
     \<and> w div (iw + gap) = \<lfloor>real_of_int w / real_of_int (iw + gap)\<rfloor>
     \<and> 0 \<le> gap
     \<and> 1 \<le> cols (calcMetrics \<lparr>gridW = Num w, itemW = Num iw\<rparr> st)"
proof -
  have "\<lfloor>real_of_int w / real_of_int (iw + gap)\<rfloor> = w div (iw + gap)"
    by (rule floor_divide_of_int_eq)
  moreover have "cols (calcMetrics \<lparr>gridW = Num w, itemW = Num iw\<rparr> st) = max 1 (w div (iw + gap))"
    using assms by (simp add: calcMetrics_def gap_def)
  moreover have "0 \<le> gap"
    by (simp add: gap_def)
  ultimately show ?thesis by simp
qed

theorem calcMetrics_columns_witness:
  "cols (calcMetrics \<lparr>gridW = Num 1000, itemW = Num 200\<rparr> one_tile) = 4
   \<and> cols (calcMetrics \<lparr>gridW = Num 100, itemW = Num 200\<rparr> one_tile) = 1"
proof -
  have ne: "items one_tile \<noteq> []"
    by (simp add: one_tile_eq)
  show ?thesis
    using calcMetrics_columns [OF ne, of 1000 200] calcMetrics_columns [OF ne, of 100 200]
    by (simp add: gap_def)
qed

text \<open>
  Claim C6. On a non-empty collection, an item width that is zero, negative, infinite,
  \<^verbatim>\<open>NaN\<close> or \<^verbatim>\<open>undefined\<close> gives exactly one column, for every container width (the gap is
  the constant of the source).
\<close>

theorem calcMetrics_unusable_item_width:
  assumes "items st \<noteq> []"
    and "case itemW lay of Num k \<Rightarrow> k \<le> 0 | _ \<Rightarrow> True"
  shows "cols (calcMetrics lay st) = 1"
  using assms
  by (cases "itemW lay"; cases "gridW lay") (auto simp: calcMetrics_def gap_def)

theorem calcMetrics_unusable_item_width_witness:
  "cols (calcMetrics \<lparr>gridW = Num 1000, itemW = Num 0\<rparr> three_tiles) = 1
   \<and> cols (calcMetrics \<lparr>gridW = Num 1000, itemW = Num (-200)\<rparr> three_tiles) = 1
   \<and> cols (calcMetrics \<lparr>gridW = Num 1000, itemW = PosInf\<rparr> three_tiles) = 1
   \<and> cols (calcMetrics \<lparr>gridW = Num 1000, itemW = NegInf\<rparr> three_tiles) = 1
   \<and> cols (calcMetrics \<lparr>gridW = Num 1000, itemW = NaN\<rparr> three_tiles) = 1
   \<and> cols (calcMetrics \<lparr>gridW = Num 1000, itemW = Undefined\<rparr> three_tiles) = 1"
proof -
  have ne: "items three_tiles \<noteq> []"
    by (simp add: three_tiles_eq)
  show ?thesis
    using calcMetrics_unusable_item_width [OF ne, of "\<lparr>gridW = Num 1000, itemW = Num 0\<rparr>"]
      calcMetrics_unusable_item_width [OF ne, of "\<lparr>gridW = Num 1000, itemW = Num (-200)\<rparr>"]
      calcMetrics_unusable_item_width [OF ne, of "\<lparr>gridW = Num 1000, itemW = PosInf\<rparr>"]
      calcMetrics_unusable_item_width [OF ne, of "\<lparr>gridW = Num 1000, itemW = NegInf\<rparr>"]
      calcMetrics_unusable_item_width [OF ne, of "\<lparr>gridW = Num 1000, itemW = NaN\<rparr>"]
      calcMetrics_unusable_item_width [OF ne, of "\<lparr>gridW = Num 1000, itemW = Undefined\<rparr>"]
    by simp
qed

subsection \<open>Registration\<close>

text \<open>
  Claim C2. From every prior state, registering an empty list leaves nothing focused
  (\<open>focusedIndex = -1\<close>) and registering a non-empty list focuses its first item, whatever
  was focused before. This holds for every visual update \<open>V\<close>, also when it throws: the
  index is assigned before the update runs.
\<close>

theorem registerItems_resets_focus:
  "(its = [] \<longrightarrow> focusedIndex (snd (registerItems V lay its st)) = -1
       \<and> items (snd (registerItems V lay its st)) = [])
   \<and> (its \<noteq> [] \<longrightarrow> focusedIndex (snd (registerItems V lay its st)) = 0
       \<and> items (snd (registerItems V lay its st)) = its)"
  by (simp add: focusedIndex_registerItems)

theorem registerItems_resets_focus_witness:
  "focusedIndex three_tiles_last = 2
   \<and> focusedIndex (snd (registerItems visual_later_copy example_layout [] three_tiles_last)) = -1
   \<and> items (snd (registerItems visual_later_copy example_layout [] three_tiles_last)) = []
   \<and> focusedIndex (snd (registerItems visual_later_copy example_layout (entities three_tiles)
        three_tiles_last)) = 0
   \<and> items (snd (registerItems visual_later_copy example_layout (entities three_tiles)
        three_tiles_last)) = entities three_tiles
   \<and> focusedIndex (snd (registerItems visual_nested example_layout (entities three_tiles)
        three_tiles_last)) = 0"
proof -
  have ne: "entities three_tiles \<noteq> []"
    by (simp add: three_tiles_eq)
  have "focusedIndex three_tiles_last = 2"
    by (simp add: three_tiles_last_eq)
  then show ?thesis
    using ne
      registerItems_resets_focus [of "[]" visual_later_copy example_layout three_tiles_last]
      registerItems_resets_focus [of "entities three_tiles" visual_later_copy example_layout
        three_tiles_last]
      registerItems_resets_focus [of "entities three_tiles" visual_nested example_layout
        three_tiles_last]
    by simp
qed

subsection \<open>Movement\<close>

text \<open>
  What lines 239-243 fix, for every visual update \<open>V\<close>: with \<open>n \<ge> 1\<close> items and a focused
  index \<open>i\<close> in range, a move by \<open>delta\<close> stores \<open>i + delta\<close> clamped to \<open>0 .. n - 1\<close> and
  leaves the items alone; at the last index a move by \<open>+1\<close> keeps the index, \<open>k\<close> presses
  of the right arrow give \<open>i + k\<close> clamped to the last index, and a move by \<open>-cols\<close> from an
  index below \<open>cols\<close> gives \<open>0\<close>. With no items the index stays \<open>-1\<close>.
\<close>

lemma handleKey_right_repeat:
  assumes "active st" and "items st \<noteq> []" and "0 \<le> focusedIndex st"
    and "focusedIndex st < int (length (items st))"
  shows "focusedIndex (((\<lambda>s. snd (handleKey V lay ''ArrowRight'' s)) ^^ k) st)
           = min (focusedIndex st + int k) (int (length (items st)) - 1)
         \<and> items (((\<lambda>s. snd (handleKey V lay ''ArrowRight'' s)) ^^ k) st) = items st
         \<and> active (((\<lambda>s. snd (handleKey V lay ''ArrowRight'' s)) ^^ k) st)"
proof (induction k)
  case 0
  show ?case using assms by simp
next
  case (Suc k)
  let ?s = "((\<lambda>s. snd (handleKey V lay ''ArrowRight'' s)) ^^ k) st"
  have a: "active ?s" and i: "items ?s = items st"
    and f: "focusedIndex ?s = min (focusedIndex st + int k) (int (length (items st)) - 1)"
    using Suc by simp_all
  have "focusedIndex (snd (handleKey V lay ''ArrowRight'' ?s))
          = max 0 (min (focusedIndex ?s + 1) (int (length (items st)) - 1))"
    using a i assms(2) by (simp add: handleKey_arrows focus_index)
  also have "\<dots> = min (focusedIndex st + int (Suc k)) (int (length (items st)) - 1)"
    using f assms(3,4) by simp
  finally show ?case
    using a i by simp
qed

lemma move_index_clamps:
  "(items st \<noteq> [] \<and> 0 \<le> focusedIndex st \<and> focusedIndex st < int (length (items st)) \<longrightarrow>
      focusedIndex (snd (focus V (focusedIndex st + delta) st))
        = max 0 (min (focusedIndex st + delta) (int (length (items st)) - 1))
      \<and> items (snd (focus V (focusedIndex st + delta) st)) = items st
      \<and> (focusedIndex st = int (length (items st)) - 1 \<longrightarrow>
            focusedIndex (snd (focus V (focusedIndex st + 1) st)) = focusedIndex st)
      \<and> (focusedIndex st < cols st \<longrightarrow>
            focusedIndex (snd (focus V (focusedIndex st - cols st) st)) = 0))
   \<and> (active st \<and> items st \<noteq> [] \<and> 0 \<le> focusedIndex st
        \<and> focusedIndex st < int (length (items st)) \<longrightarrow>
      focusedIndex (snd (handleKey V lay ''ArrowRight'' st))
        = max 0 (min (focusedIndex st + 1) (int (length (items st)) - 1))
      \<and> focusedIndex (snd (handleKey V lay ''ArrowLeft'' st))
        = max 0 (min (focusedIndex st - 1) (int (length (items st)) - 1))
      \<and> focusedIndex (snd (handleKey V lay ''ArrowDown'' st))
        = max 0 (min (focusedIndex st + cols (calcMetrics lay st)) (int (length (items st)) - 1))
      \<and> focusedIndex (snd (handleKey V lay ''ArrowUp'' st))
        = max 0 (min (focusedIndex st - cols (calcMetrics lay st)) (int (length (items st)) - 1))
      \<and> focusedIndex (((\<lambda>s. snd (handleKey V lay ''ArrowRight'' s)) ^^ k) st)
        = min (focusedIndex st + int k) (int (length (items st)) - 1)
      \<and> (focusedIndex st < cols (calcMetrics lay st) \<longrightarrow>
            focusedIndex (snd (handleKey V lay ''ArrowUp'' st)) = 0))
   \<and> (items st = [] \<and> focusedIndex st = -1 \<longrightarrow>
      focusedIndex (snd (focus V (focusedIndex st + delta) st)) = -1
      \<and> focusedIndex (snd (handleKey V lay key st)) = -1
      \<and> items (snd (handleKey V lay key st)) = [])"
proof (intro conjI impI)
  assume e: "items st = [] \<and> focusedIndex st = -1"
  then show "focusedIndex (snd (focus V (focusedIndex st + delta) st)) = -1"
    by (simp add: focus_index_empty)
  from e show "focusedIndex (snd (handleKey V lay key st)) = -1"
    by (simp add: handleKey_def Let_def focus_index_empty split: option.splits)
  from e show "items (snd (handleKey V lay key st)) = []"
    by simp
next
  assume "active st \<and> items st \<noteq> [] \<and> 0 \<le> focusedIndex st
        \<and> focusedIndex st < int (length (items st))"
  then have h: "active st" "items st \<noteq> []" "0 \<le> focusedIndex st"
     "focusedIndex st < int (length (items st))"
    by simp_all
  show "focusedIndex (((\<lambda>s. snd (handleKey V lay ''ArrowRight'' s)) ^^ k) st)
        = min (focusedIndex st + int k) (int (length (items st)) - 1)"
    using handleKey_right_repeat [OF h] by simp
qed (simp_all add: focus_index handleKey_arrows)

text \<open>
  Whether a move returns or throws is decided by the visual update. Under the later copy
  every arrow key on a non-empty collection returns; under the nested reading a key press
  on the empty collection changes nothing and returns.
\<close>

lemma later_copy_moves_return:
  "active st \<and> items st \<noteq> []
     \<and> key \<in> {''ArrowRight'', ''ArrowLeft'', ''ArrowDown'', ''ArrowUp''}
   \<Longrightarrow> fst (handleKey visual_later_copy lay key st) = Returned ()"
  by (auto simp: handleKey_arrows focus_def Let_def visual_update_def visual_later_copy_def
      item_at_def)

lemma nested_empty_move_is_noop:
  "items st = [] \<and> focusedIndex st = -1 \<Longrightarrow> handleKey visual_nested lay key st = (Returned (), st)"
  by (simp add: handleKey_def Let_def calcMetrics_empty focus_def visual_update_def
      visual_nested_def item_at_def)


subsection \<open>Focus updates\<close>

lemma fst_visual_update: "fst (visual_update V t s) = outcome_of (fst (V t s))"
  by (simp add: visual_update_def split: prod.splits)

lemma registerItems_as_update:
  "its \<noteq> [] \<Longrightarrow>
   registerItems V lay its st
     = visual_update V (Some (its ! 0)) ((calcMetrics lay (st\<lparr>items := its\<rparr>))\<lparr>focusedIndex := 0\<rparr>)"
  by (simp add: registerItems_def focus_def Let_def item_at_def)

lemma registerItems_previous_index:
  "registerItems V lay its (st\<lparr>focusedIndex := j\<rparr>) = registerItems V lay its st"
proof -
  have "calcMetrics lay (st\<lparr>focusedIndex := j, items := its\<rparr>)
      = (calcMetrics lay (st\<lparr>items := its\<rparr>))\<lparr>focusedIndex := j\<rparr>"
    by (simp add: calcMetrics_def split: jsval.splits)
  then show ?thesis
    by (simp add: registerItems_def Let_def)
qed

lemma handleKey_arrow_cases:
  assumes "active st" and "key \<in> {''ArrowRight'', ''ArrowLeft'', ''ArrowDown'', ''ArrowUp''}"
  obtains idx where "handleKey V lay key st = focus V idx (calcMetrics lay st)"
  using assms by (auto simp: handleKey_arrows)

text \<open>
  Claim C4, as amended. The source has no focus-changed event and no \<^verbatim>\<open>onFocusChange\<close>
  callback. What it has instead: registering a non-empty list runs the visual update of
  \<^verbatim>\<open>focus\<close> exactly once, for the first item, and every arrow key pressed while the input
  system is active runs it exactly once, for the item at the new index (an item of the
  collection when there is one), also when the index has not changed. While the input
  system is inactive a key press does nothing. The update receives the target and the
  state in which the new index is already stored, never the previous index: the result
  of a registration is the same from every previous index \<open>j\<close>. All of this holds for
  every visual update \<open>V\<close>; what the update does to the page is not part of the statement.
\<close>

theorem focus_update_once:
  "(its \<noteq> [] \<longrightarrow>
      registerItems V lay its st
        = visual_update V (Some (its ! 0))
            ((calcMetrics lay (st\<lparr>items := its\<rparr>))\<lparr>focusedIndex := 0\<rparr>))
   \<and> (active st \<and> key \<in> {''ArrowRight'', ''ArrowLeft'', ''ArrowDown'', ''ArrowUp''} \<longrightarrow>
      handleKey V lay key st
        = visual_update V (item_at (items st) (focusedIndex (snd (handleKey V lay key st))))
            ((calcMetrics lay st)\<lparr>focusedIndex := focusedIndex (snd (handleKey V lay key st))\<rparr>))
   \<and> (active st \<and> items st \<noteq> []
        \<and> key \<in> {''ArrowRight'', ''ArrowLeft'', ''ArrowDown'', ''ArrowUp''} \<longrightarrow>
      item_at (items st) (focusedIndex (snd (handleKey V lay key st)))
        = Some (items st ! nat (focusedIndex (snd (handleKey V lay key st)))))
   \<and> (\<not> active st \<longrightarrow> handleKey V lay key st = (Returned (), st))
   \<and> registerItems V lay its (st\<lparr>focusedIndex := j\<rparr>) = registerItems V lay its st"
proof (intro conjI impI)
  show "registerItems V lay its st
        = visual_update V (Some (its ! 0))
            ((calcMetrics lay (st\<lparr>items := its\<rparr>))\<lparr>focusedIndex := 0\<rparr>)"
    if "its \<noteq> []"
    using that by (rule registerItems_as_update)
  show "registerItems V lay its (st\<lparr>focusedIndex := j\<rparr>) = registerItems V lay its st"
    by (rule registerItems_previous_index)
  show "handleKey V lay key st = (Returned (), st)" if "\<not> active st"
    using that by (simp add: handleKey_def)
next
  assume h: "active st \<and> key \<in> {''ArrowRight'', ''ArrowLeft'', ''ArrowDown'', ''ArrowUp''}"
  then obtain idx where k: "handleKey V lay key st = focus V idx (calcMetrics lay st)"
    by (auto elim: handleKey_arrow_cases)
  show "handleKey V lay key st
        = visual_update V (item_at (items st) (focusedIndex (snd (handleKey V lay key st))))
            ((calcMetrics lay st)\<lparr>focusedIndex := focusedIndex (snd (handleKey V lay key st))\<rparr>)"
    using focus_as_update [of V idx "calcMetrics lay st"] k by simp
next
  assume h: "active st \<and> items st \<noteq> []
        \<and> key \<in> {''ArrowRight'', ''ArrowLeft'', ''ArrowDown'', ''ArrowUp''}"
  then obtain idx where k: "handleKey V lay key st = focus V idx (calcMetrics lay st)"
    by (auto elim: handleKey_arrow_cases)
  have "focusedIndex (snd (handleKey V lay key st))
      = max 0 (min idx (int (length (items st)) - 1))"
    using h k by (simp add: focus_index)
  then show "item_at (items st) (focusedIndex (snd (handleKey V lay key st)))
        = Some (items st ! nat (focusedIndex (snd (handleKey V lay key st))))"
    using h by (auto simp: item_at_def)
qed

theorem focus_update_once_witness:
  "registerItems visual_later_copy example_layout (items three_tiles) three_tiles_last
     = (Returned (), three_tiles_last\<lparr>focusedIndex := 0,
          calls := calls three_tiles_last @ [ScrollIntoView 0]\<rparr>)
   \<and> focusedIndex three_tiles_last = 2
   \<and> handleKey visual_later_copy example_layout ''ArrowRight'' three_tiles_last
     = (Returned (), three_tiles_last\<lparr>calls := calls three_tiles_last @ [ScrollIntoView 2]\<rparr>)
   \<and> handleKey visual_nested example_layout ''ArrowRight'' three_tiles_last
     = (Thrown ReferenceError, three_tiles_last)
   \<and> handleKey visual_later_copy example_layout ''ArrowRight'' (three_tiles\<lparr>active := False\<rparr>)
     = (Returned (), three_tiles\<lparr>active := False\<rparr>)
   \<and> registerItems visual_later_copy example_layout (items three_tiles)
        (three_tiles_last\<lparr>focusedIndex := 1\<rparr>)
     = registerItems visual_later_copy example_layout (items three_tiles) three_tiles_last"
proof -
  let ?A = "{''ArrowRight'', ''ArrowLeft'', ''ArrowDown'', ''ArrowUp''}"
  have ne: "items three_tiles \<noteq> []" and i: "items three_tiles_last = items three_tiles"
    and a: "active three_tiles_last" and na: "\<not> active (three_tiles\<lparr>active := False\<rparr>)"
    and k: "''ArrowRight'' \<in> ?A"
    by (simp_all add: three_tiles_eq three_tiles_last_eq)
  have f: "focusedIndex (snd (handleKey V example_layout ''ArrowRight'' three_tiles_last)) = 2"
    for V
  proof -
    have "focusedIndex (snd (handleKey V example_layout ''ArrowRight'' three_tiles_last))
        = max 0 (min (focusedIndex three_tiles_last + 1)
            (int (length (items three_tiles_last)) - 1))"
      using a i ne by (simp add: handleKey_arrows focus_index)
    then show ?thesis
      by (simp add: three_tiles_last_eq three_tiles_eq)
  qed
  have c: "calcMetrics example_layout three_tiles_last = three_tiles_last"
    by (simp add: three_tiles_last_eq three_tiles_eq calcMetrics_def example_layout_def gap_def)
  have c': "calcMetrics example_layout (three_tiles_last\<lparr>items := items three_tiles\<rparr>)
      = three_tiles_last"
    by (simp add: three_tiles_last_eq three_tiles_eq calcMetrics_def example_layout_def gap_def)
  have s2: "three_tiles_last\<lparr>focusedIndex := 2\<rparr> = three_tiles_last"
    by (simp add: three_tiles_last_eq)
  note w1 = focus_update_once [where V = visual_later_copy and st = three_tiles_last
        and key = "''ArrowRight''" and lay = example_layout and its = "items three_tiles"
        and j = 1]
  note w2 = focus_update_once [where V = visual_nested and st = three_tiles_last
        and key = "''ArrowRight''" and lay = example_layout and its = "items three_tiles"
        and j = 1]
  note w3 = focus_update_once [where V = visual_later_copy
        and st = "three_tiles\<lparr>active := False\<rparr>"
        and key = "''ArrowRight''" and lay = example_layout and its = "items three_tiles"
        and j = 1]
  from w1 [THEN conjunct1] ne
  have "registerItems visual_later_copy example_layout (items three_tiles) three_tiles_last
      = visual_update visual_later_copy (Some (items three_tiles ! 0))
          ((calcMetrics example_layout (three_tiles_last\<lparr>items := items three_tiles\<rparr>))
             \<lparr>focusedIndex := 0\<rparr>)"
    by (rule mp)
  then have "registerItems visual_later_copy example_layout (items three_tiles)
      three_tiles_last = visual_update visual_later_copy (Some (items three_tiles ! 0))
        (three_tiles_last\<lparr>focusedIndex := 0\<rparr>)"
    unfolding c' .
  also have "\<dots> = (Returned (), three_tiles_last\<lparr>focusedIndex := 0,
          calls := calls three_tiles_last @ [ScrollIntoView 0]\<rparr>)"
    by (simp add: visual_update_def visual_later_copy_def three_tiles_last_eq three_tiles_eq)
  finally have r1: "registerItems visual_later_copy example_layout (items three_tiles)
      three_tiles_last = (Returned (), three_tiles_last\<lparr>focusedIndex := 0,
          calls := calls three_tiles_last @ [ScrollIntoView 0]\<rparr>)" .
  from w1 [THEN conjunct2, THEN conjunct1] a k
  have "handleKey visual_later_copy example_layout ''ArrowRight'' three_tiles_last
      = visual_update visual_later_copy (item_at (items three_tiles_last)
          (focusedIndex (snd (handleKey visual_later_copy example_layout ''ArrowRight''
             three_tiles_last))))
          ((calcMetrics example_layout three_tiles_last)\<lparr>focusedIndex := focusedIndex
             (snd (handleKey visual_later_copy example_layout ''ArrowRight''
                three_tiles_last))\<rparr>)"
    by (rule mp [OF _ conjI])
  then have "handleKey visual_later_copy example_layout ''ArrowRight'' three_tiles_last
      = visual_update visual_later_copy (item_at (items three_tiles_last) 2) three_tiles_last"
    unfolding f c s2 .
  also have "\<dots> = (Returned (),
      three_tiles_last\<lparr>calls := calls three_tiles_last @ [ScrollIntoView 2]\<rparr>)"
    by (simp add: visual_update_def visual_later_copy_def three_tiles_last_eq three_tiles_eq
        item_at_def insert_commute)
  finally have r2: "handleKey visual_later_copy example_layout ''ArrowRight'' three_tiles_last
     = (Returned (), three_tiles_last\<lparr>calls := calls three_tiles_last @ [ScrollIntoView 2]\<rparr>)" .
  from w2 [THEN conjunct2, THEN conjunct1] a k
  have "handleKey visual_nested example_layout ''ArrowRight'' three_tiles_last
      = visual_update visual_nested (item_at (items three_tiles_last)
          (focusedIndex (snd (handleKey visual_nested example_layout ''ArrowRight''
             three_tiles_last))))
          ((calcMetrics example_layout three_tiles_last)\<lparr>focusedIndex := focusedIndex
             (snd (handleKey visual_nested example_layout ''ArrowRight''
                three_tiles_last))\<rparr>)"
    by (rule mp [OF _ conjI])
  then have "handleKey visual_nested example_layout ''ArrowRight'' three_tiles_last
      = visual_update visual_nested (item_at (items three_tiles_last) 2) three_tiles_last"
    unfolding f c s2 .
  also have "\<dots> = (Thrown ReferenceError, three_tiles_last)"
    by (simp add: visual_update_def visual_nested_def three_tiles_last_eq three_tiles_eq
        item_at_def)
  finally have r3: "handleKey visual_nested example_layout ''ArrowRight'' three_tiles_last
     = (Thrown ReferenceError, three_tiles_last)" .
  from w3 [THEN conjunct2, THEN conjunct2, THEN conjunct2, THEN conjunct1] na
  have r4: "handleKey visual_later_copy example_layout ''ArrowRight''
      (three_tiles\<lparr>active := False\<rparr>) = (Returned (), three_tiles\<lparr>active := False\<rparr>)"
    by (rule mp)
  note r5 = w1 [THEN conjunct2, THEN conjunct2, THEN conjunct2, THEN conjunct2]
  have r6: "focusedIndex three_tiles_last = 2"
    by (simp add: three_tiles_last_eq)
  from r1 r2 r3 r4 r5 r6 show ?thesis
    by (intro conjI)
qed

text \<open>
  Claim C4 as stated fails. An event that carried the previous index would differ between
  a registration made while index \<open>2\<close> is focused and the same registration made while
  index \<open>0\<close> is focused. Under both readings the two calls have the same outcome and leave
  the same state, including every action requested on the page: under the later copy
  the one request is a \<^verbatim>\<open>scrollIntoView\<close> on the first element, under the nested reading
  there is none.
\<close>

theorem registration_ignores_previous_index:
  "focusedIndex (three_tiles\<lparr>focusedIndex := 2\<rparr>) \<noteq> focusedIndex three_tiles
   \<and> registerItems visual_later_copy example_layout (items three_tiles)
        (three_tiles\<lparr>focusedIndex := 2\<rparr>)
     = registerItems visual_later_copy example_layout (items three_tiles) three_tiles
   \<and> registerItems visual_nested example_layout (items three_tiles)
        (three_tiles\<lparr>focusedIndex := 2\<rparr>)
     = registerItems visual_nested example_layout (items three_tiles) three_tiles
   \<and> calls (snd (registerItems visual_later_copy example_layout (items three_tiles) three_tiles))
     = calls three_tiles @ [ScrollIntoView 0]
   \<and> calls (snd (registerItems visual_nested example_layout (items three_tiles) three_tiles))
     = calls three_tiles"
proof -
  have p: "focusedIndex (three_tiles\<lparr>focusedIndex := 2\<rparr>) \<noteq> focusedIndex three_tiles"
    by (simp add: three_tiles_eq)
  have e: "registerItems V example_layout (items three_tiles) (three_tiles\<lparr>focusedIndex := 2\<rparr>)
     = registerItems V example_layout (items three_tiles) three_tiles" for V
    by (rule registerItems_previous_index)
  have ne: "items three_tiles \<noteq> []"
    by (simp add: three_tiles_eq)
  have u: "registerItems V example_layout (items three_tiles) three_tiles
      = visual_update V (Some (items three_tiles ! 0)) three_tiles" for V
    using ne by (simp add: registerItems_as_update)
      (simp add: three_tiles_eq calcMetrics_def example_layout_def gap_def)
  have l: "calls (snd (visual_update visual_later_copy (Some (items three_tiles ! 0)) three_tiles))
      = calls three_tiles @ [ScrollIntoView 0]"
    by (simp add: visual_update_def visual_later_copy_def three_tiles_eq)
  have n: "calls (snd (visual_update visual_nested (Some (items three_tiles ! 0)) three_tiles))
      = calls three_tiles"
    by (simp add: visual_update_def visual_nested_def)
  from p e l n show ?thesis
    by (simp only: u) simp
qed

subsection \<open>The navigator invariant\<close>

text \<open>
  Claim C3. After every sequence of operations on a new application (adding entities,
  clearing, registering items, key presses, resizes) the focused index is \<open>-1\<close> exactly
  when there are no items and is otherwise an index of the items: no operation leaves it
  stale. Every prefix of a sequence is a sequence, so this holds after each operation,
  and it holds for every visual update \<open>V\<close>, whether operations return or throw.
  Unless the host registers a list of its own, the items of the input system are the
  entities of the application.
\<close>

theorem nav_ok_after_every_operation:
  "nav_ok (run V ops TileForgeApp_new)
   \<and> ((\<forall>lay its. RegisterItems lay its \<notin> set ops) \<longrightarrow>
        items (run V ops TileForgeApp_new) = entities (run V ops TileForgeApp_new))"
proof
  show "nav_ok (run V ops TileForgeApp_new)"
    unfolding run_def by (rule nav_ok_fold) (simp add: nav_ok_def TileForgeApp_new_def)
  show "(\<forall>lay its. RegisterItems lay its \<notin> set ops) \<longrightarrow>
        items (run V ops TileForgeApp_new) = entities (run V ops TileForgeApp_new)"
    unfolding run_def by (auto intro!: items_entities_fold simp: TileForgeApp_new_def)
qed

theorem nav_ok_after_every_operation_witness:
  "nav_ok three_tiles \<and> focusedIndex three_tiles = 0 \<and> length (items three_tiles) = 3
   \<and> items three_tiles = entities three_tiles
   \<and> nav_ok (run visual_later_copy
        [KeyDown example_layout ''ArrowUp'', Clear example_layout] three_tiles_last)
   \<and> focusedIndex (run visual_later_copy
        [KeyDown example_layout ''ArrowUp'', Clear example_layout] three_tiles_last) = -1
   \<and> nav_ok (run visual_nested [add_tile ''a'', add_tile ''b'', add_tile ''c'']
        TileForgeApp_new)
   \<and> length (items (run visual_nested [add_tile ''a'', add_tile ''b'', add_tile ''c'']
        TileForgeApp_new)) = 3"
proof -
  let ?adds = "[add_tile ''a'', add_tile ''b'', add_tile ''c'']"
  let ?rest = "[KeyDown example_layout ''ArrowDown'', KeyDown example_layout ''ArrowUp'',
                Clear example_layout]"
  have a: "run visual_later_copy ?adds TileForgeApp_new = three_tiles"
    by (simp add: three_tiles_def)
  have b: "run visual_later_copy (?adds @ ?rest) TileForgeApp_new
      = run visual_later_copy [KeyDown example_layout ''ArrowUp'', Clear example_layout]
          three_tiles_last"
    by (simp add: run_def three_tiles_last_def three_tiles_def)
  have c: "focusedIndex (run visual_later_copy
      [KeyDown example_layout ''ArrowUp'', Clear example_layout] three_tiles_last) = -1"
    by (simp add: run_def clear_eq)
  have d: "length (items (run visual_nested ?adds TileForgeApp_new)) = 3"
    by (simp add: run_def add_tile_def items_addEntity entities_addEntity TileForgeApp_new_def)
  show ?thesis
    using nav_ok_after_every_operation [of visual_later_copy ?adds]
      nav_ok_after_every_operation [of visual_later_copy "?adds @ ?rest"]
      nav_ok_after_every_operation [of visual_nested ?adds] a b c d
    by (simp add: three_tiles_eq)
qed

subsection \<open>Adding entities\<close>

text \<open>
  The outcome of \<^verbatim>\<open>addEntity\<close> with a properties object: a returned handle is the new
  entity, the call returns when the visual update throws on no tile, and an exception
  of the call is an exception of the visual update on a tile.
\<close>

lemma registerItems_throws:
  "fst (registerItems V lay its st) = Thrown e \<Longrightarrow> \<exists>t s. fst (V (Some t) s) = Some e"
proof (cases "its = []")
  case True
  assume "fst (registerItems V lay its st) = Thrown e"
  then show ?thesis using True by (simp add: registerItems_empty)
next
  case False
  assume t: "fst (registerItems V lay its st) = Thrown e"
  let ?s = "(calcMetrics lay (st\<lparr>items := its\<rparr>))\<lparr>focusedIndex := 0\<rparr>"
  have "fst (visual_update V (Some (its ! 0)) ?s) = Thrown e"
    using t False by (simp add: registerItems_as_update)
  then have "fst (V (Some (its ! 0)) ?s) = Some e"
    by (cases "fst (V (Some (its ! 0)) ?s)") (simp_all add: fst_visual_update)
  then show ?thesis by blast
qed

lemma registerItems_returns:
  "\<forall>t s. fst (V (Some t) s) = None \<Longrightarrow> fst (registerItems V lay its st) = Returned ()"
proof (cases "its = []")
  case True
  then show ?thesis by (simp add: registerItems_empty)
next
  case False
  assume "\<forall>t s. fst (V (Some t) s) = None"
  then show ?thesis using False
    by (simp add: registerItems_as_update fst_visual_update)
qed

lemma addEntity_outcome:
  "(\<forall>h. fst (addEntity V rnd lay (Some p) st) = Returned h \<longrightarrow> h = fst (TileEntity_new rnd p st))
   \<and> ((\<forall>t s. fst (V (Some t) s) = None) \<longrightarrow>
        fst (addEntity V rnd lay (Some p) st) = Returned (fst (TileEntity_new rnd p st)))
   \<and> (\<forall>e. fst (addEntity V rnd lay (Some p) st) = Thrown e \<longrightarrow>
        (\<exists>t s. fst (V (Some t) s) = Some e))"
proof (intro conjI allI impI)
  fix h assume "fst (addEntity V rnd lay (Some p) st) = Returned h"
  then show "h = fst (TileEntity_new rnd p st)"
    by (simp add: addEntity_Some split: outcome.splits)
next
  assume "\<forall>t s. fst (V (Some t) s) = None"
  then show "fst (addEntity V rnd lay (Some p) st) = Returned (fst (TileEntity_new rnd p st))"
    by (simp add: addEntity_Some registerItems_returns)
next
  fix e assume "fst (addEntity V rnd lay (Some p) st) = Thrown e"
  then show "\<exists>t s. fst (V (Some t) s) = Some e"
    by (auto simp: addEntity_Some split: outcome.splits dest: registerItems_throws)
qed

text \<open>
  Claim C10. \<^verbatim>\<open>addEntity\<close> with a properties object appends the entity it has constructed:
  afterwards the collection is the old one followed by that entity, so every earlier
  entity is at its old index and the new one is at index \<open>n\<close>, the old length. This holds
  for every visual update \<open>V\<close>, whether the call returns or throws. A handle the call
  returns is the new entity, and the call does return it whenever the visual update
  throws on no tile (as under the later copy).
\<close>

theorem addEntity_appends:
  "entities (snd (addEntity V rnd lay (Some p) st)) = entities st @ [fst (TileEntity_new rnd p st)]
   \<and> length (entities (snd (addEntity V rnd lay (Some p) st))) = length (entities st) + 1
   \<and> (\<forall>i < length (entities st).
         entities (snd (addEntity V rnd lay (Some p) st)) ! i = entities st ! i)
   \<and> entities (snd (addEntity V rnd lay (Some p) st)) ! length (entities st)
       = fst (TileEntity_new rnd p st)
   \<and> items (snd (addEntity V rnd lay (Some p) st)) = entities (snd (addEntity V rnd lay (Some p) st))
   \<and> (\<forall>h. fst (addEntity V rnd lay (Some p) st) = Returned h \<longrightarrow> h = fst (TileEntity_new rnd p st))
   \<and> ((\<forall>t s. fst (V (Some t) s) = None) \<longrightarrow>
        fst (addEntity V rnd lay (Some p) st) = Returned (fst (TileEntity_new rnd p st)))"
proof (intro conjI)
  show "\<forall>h. fst (addEntity V rnd lay (Some p) st) = Returned h
      \<longrightarrow> h = fst (TileEntity_new rnd p st)"
    by (rule addEntity_outcome [THEN conjunct1])
  show "(\<forall>t s. fst (V (Some t) s) = None) \<longrightarrow>
        fst (addEntity V rnd lay (Some p) st) = Returned (fst (TileEntity_new rnd p st))"
    by (rule addEntity_outcome [THEN conjunct2, THEN conjunct1])
qed (simp_all add: entities_addEntity items_addEntity nth_append)

theorem addEntity_appends_witness:
  "addEntity visual_later_copy ''r'' example_layout (Some (tile_props ''b'')) one_tile
     = (Returned \<lparr>ent_id = ''b'', props = tile_props ''b'', element = 1, title = ''Unknown'',
          image_url = []\<rparr>,
        snd (addEntity visual_later_copy ''r'' example_layout (Some (tile_props ''b'')) one_tile))
   \<and> length (entities (snd (addEntity visual_later_copy ''r'' example_layout
        (Some (tile_props ''b'')) one_tile))) = 2
   \<and> entities (snd (addEntity visual_later_copy ''r'' example_layout
        (Some (tile_props ''b'')) one_tile)) ! 0 = entities one_tile ! 0
   \<and> entities (snd (addEntity visual_later_copy ''r'' example_layout
        (Some (tile_props ''b'')) one_tile)) ! 1
       = \<lparr>ent_id = ''b'', props = tile_props ''b'', element = 1, title = ''Unknown'',
          image_url = []\<rparr>"
proof -
  let ?r = "addEntity visual_later_copy ''r'' example_layout (Some (tile_props ''b'')) one_tile"
  have n: "fst (TileEntity_new ''r'' (tile_props ''b'') one_tile)
      = \<lparr>ent_id = ''b'', props = tile_props ''b'', element = 1, title = ''Unknown'',
          image_url = []\<rparr>"
    by (simp add: TileEntity_new_def one_tile_eq tile_props_def)
  have l: "length (entities one_tile) = 1"
    by (simp add: one_tile_eq)
  have v: "\<forall>t s. fst (visual_later_copy (Some t) s) = None"
    by (simp add: visual_later_copy_def)
  note a = addEntity_appends [of visual_later_copy "''r''" example_layout "tile_props ''b''"
      one_tile]
  from a v have r: "fst ?r = Returned (fst (TileEntity_new ''r'' (tile_props ''b'') one_tile))"
    by blast
  from a l have z: "entities (snd ?r) ! 0 = entities one_tile ! 0"
    by (simp add: nth_append)
  from a l have o: "entities (snd ?r) ! 1 = fst (TileEntity_new ''r'' (tile_props ''b'') one_tile)"
    by (simp add: nth_append)
  from a l have k: "length (entities (snd ?r)) = 2"
    by simp
  have "?r = (fst ?r, snd ?r)"
    by simp
  with r n z o k show ?thesis
    by simp
qed

text \<open>
  Claim C7, as amended. \<^verbatim>\<open>addEntity\<close> compares no ids and the source defines no
  \<^verbatim>\<open>DuplicateIdError\<close>: with a non-empty id \<open>x\<close> in the properties an entity with id \<open>x\<close> is
  appended, so when \<open>x\<close> is already the id of an entity the ids of the collection are no
  longer distinct. The call returns the new entity whenever the visual update throws on
  no tile, and an exception of the call is always one of the visual update, never one
  about ids. This holds for every visual update \<open>V\<close>.
\<close>

theorem addEntity_never_checks_ids:
  assumes "id_prop p = Some x" and "x \<noteq> []"
  shows "map ent_id (entities (snd (addEntity V rnd lay (Some p) st)))
           = map ent_id (entities st) @ [x]
     \<and> (x \<in> set (map ent_id (entities st)) \<longrightarrow>
          \<not> distinct (map ent_id (entities (snd (addEntity V rnd lay (Some p) st)))))
     \<and> ((\<forall>t s. fst (V (Some t) s) = None) \<longrightarrow>
          fst (addEntity V rnd lay (Some p) st) = Returned (fst (TileEntity_new rnd p st)))
     \<and> (\<forall>e. fst (addEntity V rnd lay (Some p) st) = Thrown e \<longrightarrow>
          (\<exists>t s. fst (V (Some t) s) = Some e))"
proof (intro conjI)
  show "(\<forall>t s. fst (V (Some t) s) = None) \<longrightarrow>
        fst (addEntity V rnd lay (Some p) st) = Returned (fst (TileEntity_new rnd p st))"
    by (rule addEntity_outcome [THEN conjunct2, THEN conjunct1])
  show "\<forall>e. fst (addEntity V rnd lay (Some p) st) = Thrown e \<longrightarrow>
          (\<exists>t s. fst (V (Some t) s) = Some e)"
    by (rule addEntity_outcome [THEN conjunct2, THEN conjunct2])
qed (use assms in \<open>simp_all add: entities_addEntity ent_id_new\<close>)

theorem addEntity_never_checks_ids_witness:
  "''a'' \<in> set (map ent_id (entities one_tile))
   \<and> map ent_id (entities (snd (addEntity visual_later_copy ''r'' example_layout
        (Some (tile_props ''a'')) one_tile))) = [''a'', ''a'']
   \<and> \<not> distinct (map ent_id (entities (snd (addEntity visual_later_copy ''r'' example_layout
        (Some (tile_props ''a'')) one_tile))))
   \<and> fst (addEntity visual_later_copy ''r'' example_layout (Some (tile_props ''a'')) one_tile)
       = Returned \<lparr>ent_id = ''a'', props = tile_props ''a'', element = 1, title = ''Unknown'',
           image_url = []\<rparr>"
proof -
  have i: "id_prop (tile_props ''a'') = Some ''a''" and n: "''a'' \<noteq> []"
    by (simp_all add: tile_props_def)
  have m: "map ent_id (entities one_tile) = [''a'']"
    by (simp add: one_tile_eq)
  have v: "\<forall>t s. fst (visual_later_copy (Some t) s) = None"
    by (simp add: visual_later_copy_def)
  have e: "fst (TileEntity_new ''r'' (tile_props ''a'') one_tile)
      = \<lparr>ent_id = ''a'', props = tile_props ''a'', element = 1, title = ''Unknown'',
          image_url = []\<rparr>"
    by (simp add: TileEntity_new_def one_tile_eq tile_props_def)
  note w = addEntity_never_checks_ids [OF i n, of visual_later_copy "''r''" example_layout
      one_tile]
  from w [THEN conjunct1] m
  have a: "map ent_id (entities (snd (addEntity visual_later_copy ''r'' example_layout
        (Some (tile_props ''a'')) one_tile))) = [''a'', ''a'']"
    by simp
  from w [THEN conjunct2, THEN conjunct1] m
  have b: "\<not> distinct (map ent_id (entities (snd (addEntity visual_later_copy ''r''
        example_layout (Some (tile_props ''a'')) one_tile))))"
    by simp
  from w [THEN conjunct2, THEN conjunct2, THEN conjunct1] v
  have c: "fst (addEntity visual_later_copy ''r'' example_layout (Some (tile_props ''a''))
      one_tile) = Returned (fst (TileEntity_new ''r'' (tile_props ''a'') one_tile))"
    by (rule mp)
  from m have d: "''a'' \<in> set (map ent_id (entities one_tile))"
    by simp
  from a b c d show ?thesis
    unfolding e by (intro conjI)
qed

text \<open>
  Claim C7 as stated fails. Under both readings, adding the id \<^verbatim>\<open>a\<close> twice to a new
  application leaves a collection that holds the id twice. Under the later copy the
  second call returns the entity; under the nested reading it throws the
  \<^verbatim>\<open>ReferenceError\<close> that adding the fresh id \<^verbatim>\<open>b\<close> throws as well.
\<close>

theorem duplicate_id_not_rejected:
  "map ent_id (entities (run visual_later_copy [add_tile ''a'', add_tile ''a'']
      TileForgeApp_new)) = [''a'', ''a'']
   \<and> map ent_id (entities (run visual_nested [add_tile ''a'', add_tile ''a'']
      TileForgeApp_new)) = [''a'', ''a'']
   \<and> fst (addEntity visual_later_copy ''r'' example_layout (Some (tile_props ''a'')) one_tile)
       = Returned \<lparr>ent_id = ''a'', props = tile_props ''a'', element = 1, title = ''Unknown'',
           image_url = []\<rparr>
   \<and> fst (addEntity visual_nested ''r'' example_layout (Some (tile_props ''a'')) one_tile)
       = Thrown ReferenceError
   \<and> fst (addEntity visual_nested ''r'' example_layout (Some (tile_props ''b'')) one_tile)
       = Thrown ReferenceError"
  by (simp add: run_def add_tile_def addEntity_def TileEntity_new_def registerItems_def
      calcMetrics_def focus_def visual_update_def visual_later_copy_def visual_nested_def
      item_at_def TileForgeApp_new_def one_tile_eq example_layout_def tile_props_def gap_def
      Let_def)

subsection \<open>Clearing\<close>

text \<open>
  Claim C8, evaluated on \<open>one_tile\<close>. The \<^verbatim>\<open>clear\<close> that runs empties the grid, the
  collection and the focus, but it requests no \<^verbatim>\<open>remove\<close> on the tile's element: no
  entity's \<^verbatim>\<open>destroy\<close> is invoked. The shadowed definition does invoke it. Neither
  reaches \<^verbatim>\<open>focus\<close>, so this holds for every visual update \<open>V\<close>.
\<close>

theorem clear_skips_destroy:
  "map element (entities one_tile) = [0]
   \<and> calls (snd (clear V example_layout one_tile)) = calls one_tile
   \<and> Remove 0 \<notin> set (calls (snd (clear V example_layout one_tile)))
   \<and> calls (snd (clear_shadowed V example_layout one_tile)) = calls one_tile @ [Remove 0]
   \<and> entities (snd (clear V example_layout one_tile)) = []
   \<and> grid_children (snd (clear V example_layout one_tile)) = []
   \<and> focusedIndex (snd (clear V example_layout one_tile)) = -1"
  by (simp add: clear_outcome clear_shadowed_outcome one_tile_eq)

end
